theory Spec2Isabelle
  imports Complex_Main
begin

section \<open>Data model\<close>

text \<open>
  The module \<^verbatim>\<open>emd/spectra.py\<close> works on numpy arrays whose axis 0 is time. An array
  is modelled as the list of its time slices: a 2D array of shape (T, C) is a list of T
  rows of C numbers, and a 3D array of shape (T, A, B) a list of T such 2D arrays. The
  functions that work along axis 0 only (difference, gradient, cumulative sum, the
  quadrature transform) treat every position of a row alike, so for them a row may also
  hold the remaining axes of a 3D array flattened. numpy arrays are rectangular:
  \<open>rect T C a\<close> says that \<open>a\<close> has T rows of length C. The arguments of \<open>holospectrum\<close>,
  whose shapes numpy broadcasts against each other, are arrays with an explicit shape
  (\<open>ndarray\<close>). Floating point numbers are read as reals, in exact arithmetic; where the
  code meets NaN or infinities, the model says so with a type of its own (\<open>None\<close> for NaN
  among frequencies, \<open>npfloat\<close> for the bin edges), and where a statement depends on the
  rounding of the machine, the operations are rounded to binary64 (\<open>round64\<close>).

  Python exceptions are values of the type \<open>error\<close>; a function that can raise returns
  \<open>error + 'a\<close> with \<open>Inl\<close> for the exception.
\<close>

datatype error =
    NameError string
  | UnboundLocalError string
  | ValueError string
  | IndexError string
  | TypeError string

type_synonym array = "real list list"
type_synonym carray = "complex list list"

definition vadd :: "real list \<Rightarrow> real list \<Rightarrow> real list" where
  "vadd xs ys = map2 (+) xs ys"

definition vsub :: "real list \<Rightarrow> real list \<Rightarrow> real list" where
  "vsub xs ys = map2 (-) xs ys"

definition rect :: "nat \<Rightarrow> nat \<Rightarrow> 'a list list \<Rightarrow> bool" where
  "rect T C a = (length a = T \<and> list_all (\<lambda>r. length r = C) a)"

section \<open>Names visible in the module\<close>

text \<open>
  A name that a function body reads and never assigns is looked up in the module's
  global namespace (and then among Python's builtins, which have no \<^verbatim>\<open>X\<close>). The module
  binds the four imports of its first lines and its fourteen functions; no global holds
  an array. A name found nowhere raises NameError.
\<close>

datatype pyobj = Module string | Function string | Array array

definition module_globals :: "(string \<times> pyobj) list" where
  "module_globals =
     [(''np'', Module ''numpy''), (''signal'', Module ''scipy.signal''),
      (''sparse'', Module ''scipy.sparse''), (''utils'', Module ''emd.utils''),
      (''frequency_stats'', Function ''frequency_stats''),
      (''quadrature_transform'', Function ''quadrature_transform''),
      (''phase_from_analytic_signal'', Function ''phase_from_analytic_signal''),
      (''freq_from_phase'', Function ''freq_from_phase''),
      (''phase_from_freq'', Function ''phase_from_freq''),
      (''direct_quadrature'', Function ''direct_quadrature''),
      (''phase_angle'', Function ''phase_angle''),
      (''holospectrum_am'', Function ''holospectrum_am''),
      (''holospectrum'', Function ''holospectrum''),
      (''hilberthuang'', Function ''hilberthuang''),
      (''hilberthuang_1d'', Function ''hilberthuang_1d''),
      (''define_hist_bins'', Function ''define_hist_bins''),
      (''define_hist_bins_from_data'', Function ''define_hist_bins_from_data''),
      (''mean_vector'', Function ''mean_vector'')]"

definition load_global :: "string \<Rightarrow> error + pyobj" where
  "load_global name =
     (case map_of module_globals name of
        Some v \<Rightarrow> Inr v
      | None \<Rightarrow> Inl (NameError name))"

section \<open>Collaborators\<close>

text \<open>
  The numerical routines of scipy, numpy and \<^verbatim>\<open>emd.utils\<close> that the module calls and
  whose inside no claim depends on are parameters of the model: \<open>hilbert\<close> is
  \<^verbatim>\<open>scipy.signal.hilbert(., axis=0)\<close>, \<open>unwrap_angle\<close> is
  \<^verbatim>\<open>np.unwrap(np.angle(.), axis=0)\<close>, \<open>savgol_filter\<close> is
  \<^verbatim>\<open>scipy.signal.savgol_filter(., w, 1, axis=0)\<close> (it raises on a bad window),
  \<open>wrap_phase\<close> and \<open>interp_envelope\<close> are the functions of \<^verbatim>\<open>emd.utils\<close>, and
  \<open>rescale\<close> is the envelope normalisation inside \<^verbatim>\<open>utils.amplitude_normalise\<close>.
\<close>

record library =
  hilbert :: "array \<Rightarrow> carray"
  unwrap_angle :: "carray \<Rightarrow> array"
  savgol_filter :: "array \<Rightarrow> int \<Rightarrow> error + array"
  wrap_phase :: "array \<Rightarrow> array"
  interp_envelope :: "real list \<Rightarrow> string \<Rightarrow> real list"
  rescale :: "array \<Rightarrow> array"

text \<open>Hard clipping of one number into [-1, 1].\<close>

definition clip_unit :: "real \<Rightarrow> real" where
  "clip_unit v = (if v > 1 then 1 else if v < - 1 then - 1 else v)"

text \<open>
  Modelled from the spec: \<^verbatim>\<open>utils.amplitude_normalise\<close> is not in the source tree. The
  spec gives its contract: it rescales each column into approximately [-1, 1], and with
  \<^verbatim>\<open>clip=True\<close> it hard-clips any residual overshoot into exactly [-1, 1]. The
  rescaling is left open as the parameter \<open>resc\<close>; the clipping is written out.
\<close>

definition amplitude_normalise :: "(array \<Rightarrow> array) \<Rightarrow> array \<Rightarrow> bool \<Rightarrow> array" where
  "amplitude_normalise resc x clip =
     (if clip then map (map clip_unit) (resc x) else resc x)"

section \<open>Analytic signal by quadrature\<close>

text \<open>
  \<^verbatim>\<open>np.lib.scimath.sqrt(v).real\<close>: the square root of a negative number is imaginary,
  so its real part is 0. Here, and in \<open>quadrature_transform\<close> below, the square, the
  subtraction and the root of line 113 are read in exact real arithmetic; the section on
  binary64 arithmetic reads the same line with the rounding of the machine.
\<close>

definition scimath_sqrt_real :: "real \<Rightarrow> real" where
  "scimath_sqrt_real v = (if v < 0 then 0 else sqrt v)"

text \<open>\<^verbatim>\<open>np.diff(a, axis=0)\<close> is \<^verbatim>\<open>a[1:] - a[:-1]\<close>.\<close>

definition diff0 :: "array \<Rightarrow> array" where
  "diff0 a = map2 vsub (tl a) (butlast a)"

text \<open>
  Lines 115 and 116: the comparison \<^verbatim>\<open>np.diff(nX, axis=0) > 0\<close> is a boolean, which
  the arithmetic reads as 1 or 0; line 116 then replaces the entries equal to 0.
\<close>

definition quadrature_mask :: "array \<Rightarrow> int list list" where
  "quadrature_mask nX =
     (let mask = map (map (\<lambda>d. (if d > 0 then 1 else 0) * (- 2) + (1::int))) (diff0 nX)
      in map (map (\<lambda>m. if m = 0 then - 1 else m)) mask)"

text \<open>
  \<open>quadrature_transform\<close>, lines 111 to 121. The normaliser
  \<^verbatim>\<open>utils.amplitude_normalise\<close> is the parameter \<open>normalise\<close>.
  \<^verbatim>\<open>mask[-1, None, :]\<close> is the last row of the mask, and raises IndexError when the
  mask has no row, that is when there are fewer than two time samples.
\<close>

definition quadrature_transform :: "(array \<Rightarrow> bool \<Rightarrow> array) \<Rightarrow> array \<Rightarrow> error + carray" where
  "quadrature_transform normalise X =
     (let nX = normalise X True;
          imagX = map (map (\<lambda>v. scimath_sqrt_real (1 - v ^ 2))) nX;
          mask = quadrature_mask nX
      in if mask = [] then Inl (IndexError ''index -1 is out of bounds for axis 0 with size 0'')
         else
           let mask' = mask @ [last mask];
               q = map2 (map2 (\<lambda>i m. i * of_int m)) imagX mask'
           in Inr (map2 (map2 (\<lambda>re im. Complex re im)) nX q))"

section \<open>The quadrature transform in binary64 arithmetic\<close>

text \<open>
  numpy computes in IEEE 754 binary64: every operation returns the double nearest to the
  exact result, a tie going to the double with an even significand. \<open>round64\<close> is
  that rounding: a double is a multiple of \<open>2^e\<close>, where \<open>e\<close> is 52 below the binary
  exponent of the number, and not below that of the subnormal numbers. Overflow to
  infinity is left out; the numbers of line 113 on clipped input are at most 1.
\<close>

definition rnd_even :: "real \<Rightarrow> int" where
  "rnd_even x =
     (let f = \<lfloor>x\<rfloor>; d = x - of_int f
      in if d < 1 / 2 then f else if d > 1 / 2 then f + 1 else if even f then f else f + 1)"

definition round64 :: "real \<Rightarrow> real" where
  "round64 r =
     (if r = 0 then 0
      else let e = max \<lfloor>log 2 \<bar>r\<bar>\<rfloor> (- 1022) - 52
           in of_int (rnd_even (r / 2 powi e)) * 2 powi e)"

text \<open>
  Line 113 on one element in binary64: \<^verbatim>\<open>np.power(nX, 2)\<close> is the rounded product,
  the subtraction from 1 and the square root are rounded in turn.
\<close>

definition scimath_sqrt_f64 :: "real \<Rightarrow> real" where
  "scimath_sqrt_f64 v = (if v < 0 then 0 else round64 (sqrt v))"

definition quadrature_imag_f64 :: "real \<Rightarrow> real" where
  "quadrature_imag_f64 v = scimath_sqrt_f64 (round64 (1 - round64 (v * v)))"

text \<open>
  \<open>quadrature_transform\<close> with line 113 in binary64. The other lines are exact on
  doubles: the sign of a rounded difference is the sign of the difference, the mask is
  plus or minus 1, and line 121 puts the two numbers side by side.
\<close>

definition quadrature_transform_f64 :: "(array \<Rightarrow> bool \<Rightarrow> array) \<Rightarrow> array \<Rightarrow> error + carray" where
  "quadrature_transform_f64 normalise X =
     (let nX = normalise X True;
          imagX = map (map quadrature_imag_f64) nX;
          mask = quadrature_mask nX
      in if mask = [] then Inl (IndexError ''index -1 is out of bounds for axis 0 with size 0'')
         else
           let mask' = mask @ [last mask];
               q = map2 (map2 (\<lambda>i m. i * of_int m)) imagX mask'
           in Inr (map2 (map2 (\<lambda>re im. Complex re im)) nX q))"

section \<open>Phase and frequency\<close>

text \<open>
  \<open>phase_from_analytic_signal\<close> returns None when \<open>ret_phase\<close> is neither of the two
  strings it tests, as a Python function that falls off its end does.
\<close>

definition phase_from_analytic_signal ::
  "library \<Rightarrow> carray \<Rightarrow> int option \<Rightarrow> string \<Rightarrow> string \<Rightarrow> error + array option" where
  "phase_from_analytic_signal lib analytic_signal smoothing ret_phase phase_jump =
     (let iphase0 = unwrap_angle lib analytic_signal in
      case (case smoothing of None \<Rightarrow> Inr iphase0 | Some w \<Rightarrow> savgol_filter lib iphase0 w) of
        Inl e \<Rightarrow> Inl e
      | Inr iphase1 \<Rightarrow>
          let iphase =
                (if phase_jump = ''ascending'' then map (map (\<lambda>p. p + pi / 2)) iphase1
                 else if phase_jump = ''peak'' then iphase1
                 else if phase_jump = ''descending'' then map (map (\<lambda>p. p - pi / 2)) iphase1
                 else if phase_jump = ''trough'' then map (map (\<lambda>p. p + pi)) iphase1
                 else iphase1)
          in if ret_phase = ''wrapped'' then Inr (Some (wrap_phase lib iphase))
             else if ret_phase = ''unwrapped'' then Inr (Some iphase)
             else Inr None)"

text \<open>
  \<^verbatim>\<open>np.gradient(a, axis=0)\<close> with unit spacing: central differences inside, one-sided
  differences at the two ends; it raises ValueError on fewer than two samples.
\<close>

definition gradient0 :: "array \<Rightarrow> error + array" where
  "gradient0 a =
     (let T = length a in
      if T < 2 then Inl (ValueError ''Shape of array too small to calculate a numerical gradient'')
      else Inr (map (\<lambda>t. if t = 0 then vsub (a ! 1) (a ! 0)
                         else if t = T - 1 then vsub (a ! (T - 1)) (a ! (T - 2))
                         else map (\<lambda>d. d / 2) (vsub (a ! (t + 1)) (a ! (t - 1))))
                    [0..<T]))"

definition freq_from_phase :: "array \<Rightarrow> real \<Rightarrow> error + array" where
  "freq_from_phase iphase sample_rate =
     (case gradient0 iphase of
        Inl e \<Rightarrow> Inl e
      | Inr g \<Rightarrow> Inr (map (map (\<lambda>d. d / (2 * pi) * sample_rate)) g))"

text \<open>\<^verbatim>\<open>np.cumsum(a, axis=0)\<close>: row t of the result is the sum of rows 0 to t.\<close>

fun cumsum_from :: "real list \<Rightarrow> array \<Rightarrow> array" where
  "cumsum_from acc [] = []"
| "cumsum_from acc (r # rs) = vadd acc r # cumsum_from (vadd acc r) rs"

definition cumsum0 :: "array \<Rightarrow> array" where
  "cumsum0 a = (case a of [] \<Rightarrow> [] | r # rs \<Rightarrow> r # cumsum_from r rs)"

text \<open>
  The starting phase is one row, added to every time slice as numpy broadcasts it (a
  scalar start is the row that repeats it).
\<close>

definition phase_from_freq :: "array \<Rightarrow> real \<Rightarrow> real list \<Rightarrow> array" where
  "phase_from_freq ifrequency sample_rate phase_start =
     (let iphase_diff = map (map (\<lambda>f. (f / sample_rate) * (2 * pi))) ifrequency
      in map (\<lambda>r. vadd phase_start r) (cumsum0 iphase_diff))"

section \<open>frequency\_stats\<close>

text \<open>
  The result is the text printed and either the exception raised or the triple
  (phase, frequency, amplitude). The local variables \<^verbatim>\<open>analytic_signal\<close> and
  \<^verbatim>\<open>iamp\<close> are bound only by the branches that assign them: \<open>None\<close> is an unbound
  local, and reading it raises UnboundLocalError. The parameter of the function is
  \<^verbatim>\<open>imf\<close>; line 49 reads \<^verbatim>\<open>X\<close>, which the function never assigns, so it is a global
  name.
\<close>

type_synonym stats = "array \<times> array \<times> array"

definition frequency_stats_tail ::
  "library \<Rightarrow> string list \<Rightarrow> carray option \<Rightarrow> array option \<Rightarrow> real \<Rightarrow> int
     \<Rightarrow> string list \<times> (error + stats)" where
  "frequency_stats_tail lib out analytic_signal iamp sample_rate smooth_phase =
     (case analytic_signal of
        None \<Rightarrow> (out, Inl (UnboundLocalError ''analytic_signal''))
      | Some a \<Rightarrow>
          (case phase_from_analytic_signal lib a (Some smooth_phase) ''unwrapped'' ''ascending'' of
             Inl e \<Rightarrow> (out, Inl e)
           | Inr None \<Rightarrow> (out, Inl (ValueError ''axis 0 is out of bounds''))
           | Inr (Some iphase) \<Rightarrow>
               (case freq_from_phase iphase sample_rate of
                  Inl e \<Rightarrow> (out, Inl e)
                | Inr ifreq \<Rightarrow>
                    (case iamp of
                       None \<Rightarrow> (out, Inl (UnboundLocalError ''iamp''))
                     | Some ia \<Rightarrow> (out, Inr (wrap_phase lib iphase, ifreq, ia))))))"

definition frequency_stats ::
  "library \<Rightarrow> array \<Rightarrow> real \<Rightarrow> string \<Rightarrow> int \<Rightarrow> string list \<times> (error + stats)" where
  "frequency_stats lib imf sample_rate method smooth_phase =
     (if method = ''hilbert'' then
        (case load_global ''X'' of
           Inl e \<Rightarrow> ([], Inl e)
         | Inr (Array x) \<Rightarrow>
             (let analytic_signal = hilbert lib x;
                  iamp = map (map cmod) analytic_signal
              in frequency_stats_tail lib [] (Some analytic_signal) (Some iamp)
                   sample_rate smooth_phase)
         | Inr _ \<Rightarrow> ([], Inl (TypeError ''not an array'')))
      else if method = ''quad'' then
        (case quadrature_transform (amplitude_normalise (rescale lib)) imf of
           Inl e \<Rightarrow> ([], Inl e)
         | Inr analytic_signal \<Rightarrow>
             (let iamp = transpose (map (\<lambda>col. interp_envelope lib col ''upper'') (transpose imf))
              in frequency_stats_tail lib [] (Some analytic_signal) (Some iamp)
                   sample_rate smooth_phase))
      else if method = ''direct_quad'' then
        ([], Inl (ValueError ''direct_quad method is broken!''))
      else
        frequency_stats_tail lib [''Method not recognised''] None None
          sample_rate smooth_phase)"

section \<open>Binning\<close>

text \<open>
  \<^verbatim>\<open>np.digitize(x, bins)\<close> with the default \<^verbatim>\<open>right=False\<close>. numpy first checks
  that the bins are monotonic and raises ValueError otherwise. For increasing bins the
  index is \<^verbatim>\<open>searchsorted(bins, x, side='right')\<close>, the number of bins not above \<open>x\<close>:
  0 below the first edge, \<open>i\<close> when \<open>bins[i-1] <= x < bins[i]\<close>, and the number of
  edges from the last edge on. For decreasing bins the result is the number of edges
  minus the same count on the reversed bins. A frequency that line 423 or 424 has
  overwritten with NaN is \<open>None\<close>; NaN sorts after every number.
\<close>

definition monotonic :: "real list \<Rightarrow> bool" where
  "monotonic bins = (sorted bins \<or> sorted (rev bins))"

definition searchsorted_right :: "real list \<Rightarrow> real option \<Rightarrow> nat" where
  "searchsorted_right bins x =
     (case x of None \<Rightarrow> length bins | Some v \<Rightarrow> length (filter (\<lambda>b. b \<le> v) bins))"

definition digitize :: "real list \<Rightarrow> real option \<Rightarrow> nat" where
  "digitize bins x =
     (if sorted bins then searchsorted_right bins x
      else length bins - searchsorted_right (rev bins) x)"

definition not_monotonic :: error where
  "not_monotonic = ValueError ''bins must be monotonically increasing or decreasing''"

definition shape1 :: "'a list list \<Rightarrow> nat" where
  "shape1 a = (case a of [] \<Rightarrow> 0 | r # _ \<Rightarrow> length r)"

definition shape2 :: "'a list list list \<Rightarrow> nat" where
  "shape2 a = (case a of [] \<Rightarrow> 0 | r # _ \<Rightarrow> shape1 r)"

section \<open>Sparse matrices\<close>

text \<open>
  \<^verbatim>\<open>scipy.sparse.coo_matrix((data, (row, col)), shape=(M, N))\<close>: a list of entries, where
  two entries may name one cell. The constructor raises ValueError on a negative shape,
  on index and data arrays of different lengths, and on an index outside the shape.
  \<open>toarray\<close> adds up the entries of a cell (\<open>cell\<close>), and \<open>sum(axis=0)\<close> the entries of
  a column, whatever their row (\<open>colsum\<close>).
\<close>

record coo =
  nrows :: nat
  ncols :: nat
  entries :: "(real \<times> nat \<times> nat) list"

definition coo_matrix :: "real list \<Rightarrow> nat list \<Rightarrow> nat list \<Rightarrow> int \<Rightarrow> int \<Rightarrow> error + coo" where
  "coo_matrix dat row col M N =
     (if M < 0 \<or> N < 0 then Inl (ValueError ''invalid shape'')
      else if \<not> (length row = length dat \<and> length col = length dat)
        then Inl (ValueError ''row, column, and data array must all be the same length'')
      else if list_ex (\<lambda>r. int r \<ge> M) row
        then Inl (ValueError ''row index exceeds matrix dimensions'')
      else if list_ex (\<lambda>c. int c \<ge> N) col
        then Inl (ValueError ''column index exceeds matrix dimensions'')
      else Inr \<lparr>nrows = nat M, ncols = nat N, entries = zip dat (zip row col)\<rparr>)"

definition cell :: "(real \<times> nat \<times> nat) list \<Rightarrow> nat \<Rightarrow> nat \<Rightarrow> real" where
  "cell es r c = sum_list (map fst (filter (\<lambda>e. fst (snd e) = r \<and> snd (snd e) = c) es))"

definition toarray :: "coo \<Rightarrow> array" where
  "toarray m = map (\<lambda>r. map (\<lambda>c. cell (entries m) r c) [0..<ncols m]) [0..<nrows m]"

definition colsum :: "(real \<times> nat \<times> nat) list \<Rightarrow> nat \<Rightarrow> real" where
  "colsum es c = sum_list (map fst (filter (\<lambda>e. snd (snd e) = c) es))"

definition coo_sum_axis0 :: "coo \<Rightarrow> real list" where
  "coo_sum_axis0 m = map (\<lambda>c. colsum (entries m) c) [0..<ncols m]"

text \<open>
  \<^verbatim>\<open>v.reshape(n2, n1)\<close> of a flat vector in C order, and the slice \<^verbatim>\<open>[1:-1]\<close>.
\<close>

definition reshape2 :: "nat \<Rightarrow> nat \<Rightarrow> real list \<Rightarrow> array" where
  "reshape2 n2 n1 v = map (\<lambda>a. map (\<lambda>c. v ! (a * n1 + c)) [0..<n1]) [0..<n2]"

definition inner :: "'a list \<Rightarrow> 'a list" where
  "inner xs = butlast (tl xs)"

section \<open>Spectral aggregators\<close>

text \<open>
  \<open>hilberthuang_1d\<close>, lines 419 to 436. The frequency and amplitude arrays are 2D and
  paired; when the loop body runs, an amplitude array with another number of time
  samples or with fewer columns makes the indexing of line 432 or 434 raise IndexError.
  Row \<open>ii\<close> of the result collects the samples whose digitize index equals \<open>ii\<close>, for
  \<open>ii\<close> from 0 to \<open>len(fbins)-2\<close>, as the loop of line 428 says.
\<close>

definition hilberthuang_1d :: "array \<Rightarrow> array \<Rightarrow> real list \<Rightarrow> string \<Rightarrow> error + array" where
  "hilberthuang_1d infr inam fbins mode =
     (if fbins = [] then Inl (ValueError ''negative dimensions are not allowed'')
      else
        let below = map (map (\<lambda>f. if f < hd fbins then None else Some f)) infr;
            masked = map (map (\<lambda>f. case f of None \<Rightarrow> None
                                   | Some v \<Rightarrow> if v > last fbins then None else Some v)) below
        in if \<not> monotonic fbins then Inl not_monotonic
           else if 0 < length fbins - 1 \<and> 0 < shape1 infr
                   \<and> (mode = ''power'' \<or> mode = ''energy'')
                   \<and> \<not> (length inam = length infr \<and> shape1 infr \<le> shape1 inam)
             then Inl (IndexError ''index does not match indexed array'')
           else
             let finds = map (map (digitize fbins)) masked;
                 hits = (\<lambda>ii jj. filter (\<lambda>t. finds ! t ! jj = ii) [0..<length infr])
             in Inr (map (\<lambda>ii. map (\<lambda>jj.
                       if mode = ''power'' then sum_list (map (\<lambda>t. inam ! t ! jj) (hits ii jj))
                       else if mode = ''energy''
                         then sum_list (map (\<lambda>t. (inam ! t ! jj) ^ 2) (hits ii jj))
                       else 0) [0..<shape1 infr]) [0..<length fbins - 1]))"

text \<open>
  \<open>hilberthuang\<close>, lines 378 to 397. \<open>yinds\<close> are the digitize indices (rows of the
  sparse matrix), \<open>xinds\<close> the time indices (columns). Line 388 keeps an entry when its
  row index is below \<open>len(freq_edges)-1\<close> or equal to 0.
\<close>

datatype hht = Sparse coo | Dense array

definition hilberthuang ::
  "array \<Rightarrow> array \<Rightarrow> real list \<Rightarrow> string \<Rightarrow> bool \<Rightarrow> error + hht" where
  "hilberthuang infr inam freq_edges mode return_sparse =
     (let inam' = (if mode = ''energy'' then map (map (\<lambda>a. a ^ 2)) inam else inam)
      in if \<not> monotonic freq_edges then Inl not_monotonic
         else
           let yinds = map (map (\<lambda>f. digitize freq_edges (Some f))) infr;
               xinds = map (\<lambda>t. replicate (shape1 yinds) t) [0..<length yinds];
               coo_data = zip (concat inam') (zip (concat yinds) (concat xinds))
           in if length (concat inam') \<noteq> length (concat yinds)
                then Inl (IndexError ''boolean index did not match indexed array'')
              else
                let goods = filter (\<lambda>e. int (fst (snd e)) < int (length freq_edges) - 1
                                         \<or> fst (snd e) = 0) coo_data
                in case coo_matrix (map fst goods) (map (fst \<circ> snd) goods) (map (snd \<circ> snd) goods)
                          (int (length freq_edges) - 1) (int (length xinds)) of
                     Inl e \<Rightarrow> Inl e
                   | Inr m \<Rightarrow> if return_sparse then Inr (Sparse m) else Inr (Dense (toarray m)))"

text \<open>
  The arguments of \<open>holospectrum\<close> may have any shape that numpy accepts, so they are
  arrays with their shape written out: the list of the axis lengths and the elements in
  C order (the last axis runs fastest), as \<^verbatim>\<open>a.reshape(-1)\<close> lists them. A numpy array
  has as many elements as the product of its shape.
\<close>

record 'a ndarray =
  shape :: "nat list"
  flat :: "'a list"

text \<open>
  numpy broadcasting of two shapes: the shapes are aligned at their last axis; two axis
  lengths are compatible when they are equal or one of them is 1, and the result takes
  the other one; a missing leading axis counts as 1. \<open>broadcast_rev\<close> works on the
  reversed shapes.
\<close>

fun broadcast_rev :: "nat list \<Rightarrow> nat list \<Rightarrow> nat list option" where
  "broadcast_rev [] ys = Some ys"
| "broadcast_rev xs [] = Some xs"
| "broadcast_rev (x # xs) (y # ys) =
     (if x = y \<or> x = 1 \<or> y = 1
      then map_option ((#) (if x = 1 then y else x)) (broadcast_rev xs ys)
      else None)"

definition broadcast_shapes :: "nat list \<Rightarrow> nat list \<Rightarrow> nat list option" where
  "broadcast_shapes s1 s2 = map_option rev (broadcast_rev (rev s1) (rev s2))"

text \<open>
  The multi-index of the element at position \<open>i\<close> of an array of shape \<open>s\<close> in C order,
  and the position of a multi-index.
\<close>

fun unravel :: "nat list \<Rightarrow> nat \<Rightarrow> nat list" where
  "unravel [] i = []"
| "unravel (d # ds) i = i div prod_list ds # unravel ds (i mod prod_list ds)"

fun ravel :: "nat list \<Rightarrow> nat list \<Rightarrow> nat" where
  "ravel (d # ds) (k # ks) = k * prod_list ds + ravel ds ks"
| "ravel _ _ = 0"

text \<open>
  The element of \<open>a\<close> that stands at position \<open>i\<close> of its broadcast to the shape \<open>rs\<close>:
  the index keeps the last axes, and an axis of length 1 is read at 0.
\<close>

definition broadcast_get :: "'a ndarray \<Rightarrow> nat list \<Rightarrow> nat \<Rightarrow> 'a" where
  "broadcast_get a rs i =
     (let idx = drop (length rs - length (shape a)) (unravel rs i)
      in flat a ! ravel (shape a) (map2 (\<lambda>d k. if d = 1 then 0 else k) (shape a) idx))"

definition broadcast2 ::
  "('a \<Rightarrow> 'b \<Rightarrow> 'c) \<Rightarrow> 'a ndarray \<Rightarrow> 'b ndarray \<Rightarrow> error + 'c ndarray" where
  "broadcast2 f a b =
     (case broadcast_shapes (shape a) (shape b) of
        None \<Rightarrow> Inl (ValueError ''operands could not be broadcast together'')
      | Some rs \<Rightarrow>
          Inr \<lparr>shape = rs,
               flat = map (\<lambda>i. f (broadcast_get a rs i) (broadcast_get b rs i))
                        [0..<prod_list rs]\<rparr>)"

text \<open>
  \<open>holospectrum\<close>, lines 324 to 354, up to the sparse matrix of line 342
  (\<open>holo_matrix\<close>); the two branches of line 346 read it. In the order of the source:
  \<^item> lines 327 and 328 digitize both frequency arrays, and raise on bins that are not
    monotonic;
  \<^item> line 330 reads \<^verbatim>\<open>infr_inds.shape[0]\<close>, \<^verbatim>\<open>infr_inds.shape[1]\<close> and
    \<^verbatim>\<open>infr2.shape[2]\<close>, which raise IndexError on arrays of fewer axes;
  \<^item> line 331 gives the carrier indices a third axis and broadcasts them to
    \<open>(T, C, K)\<close>, which only a 2D array allows;
  \<^item> line 336 adds \<^verbatim>\<open>IA_inds * fold_dim1\<close> under numpy's broadcasting, so the AM
    frequencies may have the shape \<open>(T, C, K)\<close> or any shape that broadcasts with it;
  \<^item> line 342 flattens the amplitudes, the time indices and the folded indices, and the
    constructor of the sparse matrix raises unless the three have one length.
\<close>

definition holo_matrix ::
  "real ndarray \<Rightarrow> real ndarray \<Rightarrow> real ndarray \<Rightarrow> real list \<Rightarrow> real list \<Rightarrow> string
     \<Rightarrow> error + coo" where
  "holo_matrix infr infr2 inam2 freq_edges freq_edges2 mode =
     (let inam2' = (if mode = ''energy'' then map (\<lambda>a. a ^ 2) (flat inam2) else flat inam2)
      in if \<not> monotonic freq_edges2 then Inl not_monotonic
         else if \<not> monotonic freq_edges then Inl not_monotonic
         else if length (shape infr) < 2 \<or> length (shape infr2) < 3
           then Inl (IndexError ''tuple index out of range'')
         else if 2 < length (shape infr)
           then Inl (ValueError ''input operand has more dimensions than allowed'')
         else
           let IA_inds = \<lparr>shape = shape infr2,
                          flat = map (\<lambda>f. digitize freq_edges2 (Some f)) (flat infr2)\<rparr>;
               infr_inds = map (\<lambda>f. digitize freq_edges (Some f)) (flat infr);
               T = shape infr ! 0; C = shape infr ! 1; K = shape infr2 ! 2;
               infr_inds_b = \<lparr>shape = [T, C, K], flat = concat (map (replicate K) infr_inds)\<rparr>;
               fold_dim1 = length freq_edges + 1;
               fold_dim2 = length freq_edges2 + 1
           in case broadcast2 (\<lambda>a b. a + b * fold_dim1) infr_inds_b IA_inds of
                Inl e \<Rightarrow> Inl e
              | Inr folded \<Rightarrow>
                  let T_inds = concat (map (\<lambda>t. replicate (C * K) t) [0..<T])
                  in coo_matrix inam2' T_inds (flat folded) (int T) (int (fold_dim1 * fold_dim2)))"

text \<open>
  The result is a 3D array (time, AM bin, carrier bin) with \<^verbatim>\<open>return_time=True\<close> and
  a 2D array (AM bin, carrier bin) without, both as nested lists.
\<close>

datatype holo = Holo3 "real list list list" | Holo2 array

definition holospectrum ::
  "real ndarray \<Rightarrow> real ndarray \<Rightarrow> real ndarray \<Rightarrow> real list \<Rightarrow> real list \<Rightarrow> string
     \<Rightarrow> bool \<Rightarrow> error + holo" where
  "holospectrum infr infr2 inam2 freq_edges freq_edges2 mode return_time =
     (let fold_dim1 = length freq_edges + 1;
          fold_dim2 = length freq_edges2 + 1
      in case holo_matrix infr infr2 inam2 freq_edges freq_edges2 mode of
           Inl e \<Rightarrow> Inl e
         | Inr m \<Rightarrow>
             if return_time
             then Inr (Holo3 (map (\<lambda>row. inner (map inner (reshape2 fold_dim2 fold_dim1 row)))
                                (toarray m)))
             else Inr (Holo2 (inner (map inner (reshape2 fold_dim2 fold_dim1 (coo_sum_axis0 m))))))"



section \<open>Histogram bins\<close>

text \<open>
  \<open>define_hist_bins\<close> takes the logarithm of its arguments, and numpy's logarithm does
  not raise: it returns minus infinity at 0 and NaN below 0 (with a warning). The numbers
  of this function are therefore reals extended with the two infinities and NaN, with
  the arithmetic of IEEE 754 on them (rounding and the sign of zero left out).
\<close>

datatype npfloat = Fin real | PosInf | NegInf | NaN

fun fneg :: "npfloat \<Rightarrow> npfloat" where
  "fneg (Fin a) = Fin (- a)"
| "fneg PosInf = NegInf"
| "fneg NegInf = PosInf"
| "fneg NaN = NaN"

fun fadd :: "npfloat \<Rightarrow> npfloat \<Rightarrow> npfloat" where
  "fadd NaN _ = NaN"
| "fadd _ NaN = NaN"
| "fadd (Fin a) (Fin b) = Fin (a + b)"
| "fadd PosInf NegInf = NaN"
| "fadd NegInf PosInf = NaN"
| "fadd PosInf _ = PosInf"
| "fadd NegInf _ = NegInf"
| "fadd (Fin a) b = b"

definition fsub :: "npfloat \<Rightarrow> npfloat \<Rightarrow> npfloat" where
  "fsub a b = fadd a (fneg b)"

definition inf_of_sign :: "real \<Rightarrow> npfloat" where
  "inf_of_sign s = (if s = 0 then NaN else if s > 0 then PosInf else NegInf)"

fun fmul :: "npfloat \<Rightarrow> npfloat \<Rightarrow> npfloat" where
  "fmul NaN _ = NaN"
| "fmul _ NaN = NaN"
| "fmul (Fin a) (Fin b) = Fin (a * b)"
| "fmul (Fin a) PosInf = inf_of_sign a"
| "fmul (Fin a) NegInf = inf_of_sign (- a)"
| "fmul PosInf (Fin b) = inf_of_sign b"
| "fmul NegInf (Fin b) = inf_of_sign (- b)"
| "fmul PosInf PosInf = PosInf"
| "fmul NegInf NegInf = PosInf"
| "fmul PosInf NegInf = NegInf"
| "fmul NegInf PosInf = NegInf"

text \<open>Division by a finite positive number, the only division the function makes.\<close>

fun fdiv_pos :: "npfloat \<Rightarrow> real \<Rightarrow> npfloat" where
  "fdiv_pos (Fin a) d = Fin (a / d)"
| "fdiv_pos x d = x"

fun np_log :: "npfloat \<Rightarrow> npfloat" where
  "np_log (Fin a) = (if a > 0 then Fin (ln a) else if a = 0 then NegInf else NaN)"
| "np_log PosInf = PosInf"
| "np_log NegInf = NaN"
| "np_log NaN = NaN"

fun np_exp :: "npfloat \<Rightarrow> npfloat" where
  "np_exp (Fin a) = Fin (exp a)"
| "np_exp PosInf = PosInf"
| "np_exp NegInf = Fin 0"
| "np_exp NaN = NaN"

text \<open>
  \<^verbatim>\<open>np.linspace(start, stop, num)\<close>: \<open>num\<close> samples \<open>start + i * step\<close> with
  \<open>step = (stop - start) / (num - 1)\<close>, the last one set to \<open>stop\<close>; ValueError on a
  negative \<open>num\<close>.
\<close>

definition linspace :: "npfloat \<Rightarrow> npfloat \<Rightarrow> int \<Rightarrow> error + npfloat list" where
  "linspace start stop num =
     (if num < 0 then Inl (ValueError ''Number of samples must be non-negative'')
      else
        let n = nat num; dv = real_of_int (num - 1); delta = fsub stop start;
            y = (if num - 1 > 0 then
                   (let step = fdiv_pos delta dv in
                    if step = Fin 0
                    then map (\<lambda>i. fmul (fdiv_pos (Fin (real i)) dv) delta) [0..<n]
                    else map (\<lambda>i. fmul (Fin (real i)) step) [0..<n])
                 else map (\<lambda>i. fmul (Fin (real i)) delta) [0..<n]);
            y' = map (\<lambda>v. fadd v start) y
        in Inr (if num > 1 then butlast y' @ [stop] else y'))"

definition centres_of :: "npfloat list \<Rightarrow> npfloat list" where
  "centres_of edges =
     map (\<lambda>ii. fdiv_pos (fadd (edges ! ii) (edges ! (ii + 1))) 2) [0..<length edges - 1]"

definition define_hist_bins ::
  "npfloat \<Rightarrow> npfloat \<Rightarrow> int \<Rightarrow> string \<Rightarrow> error + npfloat list \<times> npfloat list" where
  "define_hist_bins data_min data_max nbins scale =
     (if scale = ''log'' then
        (case linspace (np_log data_min) (np_log data_max) (nbins + 1) of
           Inl e \<Rightarrow> Inl e
         | Inr edges0 \<Rightarrow> let edges = map np_exp edges0 in Inr (edges, centres_of edges))
      else if scale = ''linear'' then
        (case linspace data_min data_max (nbins + 1) of
           Inl e \<Rightarrow> Inl e
         | Inr edges \<Rightarrow> Inr (edges, centres_of edges))
      else Inl (ValueError ''scale '{0}' not recognised. please use 'log' or 'linear'.''))"

section \<open>Expressions of the specification\<close>

text \<open>
  The round trip that the specification composes from the two functions of the source:
  \<^verbatim>\<open>phase_from_freq(freq_from_phase(phase, fs), fs, phase[0])\<close>. Python evaluates the
  inner call first, so \<^verbatim>\<open>phase[0]\<close> is read only once the gradient has accepted the
  array, which then has a first row.
\<close>

definition round_trip :: "array \<Rightarrow> real \<Rightarrow> error + array" where
  "round_trip phase sample_rate =
     (case freq_from_phase phase sample_rate of
        Inl e \<Rightarrow> Inl e
      | Inr ifrequency \<Rightarrow> Inr (phase_from_freq ifrequency sample_rate (phase ! 0)))"

text \<open>
  One cell of the result of \<open>quadrature_transform\<close>, from the normalised sample and
  the mask entry at the same place (lines 113, 119 and 121 on one element).
\<close>

definition quad_cell :: "real \<Rightarrow> int \<Rightarrow> complex" where
  "quad_cell x m = Complex x (scimath_sqrt_real (1 - x ^ 2) * of_int m)"

section \<open>Results on frequency\_stats\<close>

lemma load_global_X: "load_global ''X'' = Inl (NameError ''X'')"
  by (simp add: load_global_def module_globals_def)

text \<open>
  C8. With \<^verbatim>\<open>method='direct_quad'\<close>, \<open>frequency_stats\<close> raises ValueError for every IMF
  array, sample rate and smoothing length, having printed nothing and computed no phase,
  frequency or amplitude.
\<close>

theorem direct_quad_raises:
  "frequency_stats lib imf sample_rate ''direct_quad'' smooth_phase =
     ([], Inl (ValueError ''direct_quad method is broken!''))"
  by (simp add: frequency_stats_def)

text \<open>
  C1. With \<^verbatim>\<open>method='hilbert'\<close> the code does not return an amplitude: line 49 applies the
  Hilbert transform to the name \<^verbatim>\<open>X\<close>, which is bound nowhere, so the call raises
  NameError for every IMF array, sample rate and smoothing length.
\<close>

theorem hilbert_raises_name_error:
  "frequency_stats lib imf sample_rate ''hilbert'' smooth_phase = ([], Inl (NameError ''X''))"
  by (simp add: frequency_stats_def load_global_X)

text \<open>
  C2. With a method that is none of the three, the code prints a message, raises no
  configuration error and goes on to read \<^verbatim>\<open>analytic_signal\<close>, which no branch has
  bound: the call ends in UnboundLocalError, here for the method \<^verbatim>\<open>'fft'\<close>.
\<close>

theorem unknown_method_unbound_local:
  "frequency_stats lib imf sample_rate ''fft'' smooth_phase =
     ([''Method not recognised''], Inl (UnboundLocalError ''analytic_signal''))"
  by (simp add: frequency_stats_def frequency_stats_tail_def)

section \<open>Results on the quadrature transform\<close>

lemma map2_fuse:
  "map2 F xs (map2 G (map s xs) ms) = map2 (\<lambda>x m. F x (G (s x) m)) xs ms"
proof (induction xs arbitrary: ms)
  case Nil
  then show ?case by simp
next
  case (Cons x xs)
  then show ?case by (cases ms) simp_all
qed

lemma quadrature_fused:
  "quadrature_transform normalise X =
     (if quadrature_mask (normalise X True) = []
      then Inl (IndexError ''index -1 is out of bounds for axis 0 with size 0'')
      else Inr (map2 (map2 quad_cell) (normalise X True)
                  (quadrature_mask (normalise X True) @ [last (quadrature_mask (normalise X True))])))"
proof -
  have inner: "\<And>ra rm. map2 Complex ra (map2 (\<lambda>i m. i * of_int m) (map (\<lambda>v. scimath_sqrt_real (1 - v ^ 2)) ra) rm)
       = map2 quad_cell ra rm"
    unfolding quad_cell_def by (rule map2_fuse)
  have "\<And>nX M. map2 (map2 Complex) nX (map2 (map2 (\<lambda>i m. i * of_int m)) (map (map (\<lambda>v. scimath_sqrt_real (1 - v ^ 2))) nX) M)
      = map2 (\<lambda>ra rm. map2 Complex ra (map2 (\<lambda>i m. i * of_int m) (map (\<lambda>v. scimath_sqrt_real (1 - v ^ 2)) ra) rm)) nX M"
    by (rule map2_fuse)
  then show ?thesis
    by (simp add: quadrature_transform_def Let_def inner)
qed

lemma scimath_sqrt_real_nonneg: "0 \<le> scimath_sqrt_real v"
  by (simp add: scimath_sqrt_real_def)

lemma quad_cell_unit:
  assumes "\<bar>x\<bar> \<le> 1" and "m = 1 \<or> m = - 1"
  shows "cmod (quad_cell x m) = 1"
proof -
  have "x ^ 2 \<le> 1" using assms(1) by (simp add: abs_le_square_iff[of x 1, simplified])
  then have nn: "0 \<le> 1 - x ^ 2" by simp
  have "(sqrt (1 - x ^ 2) * of_int m) ^ 2 = 1 - x ^ 2"
    using assms(2) nn by (auto simp: power_mult_distrib)
  then have "x ^ 2 + (scimath_sqrt_real (1 - x ^ 2) * of_int m) ^ 2 = 1"
    using nn by (simp add: scimath_sqrt_real_def)
  then show ?thesis
    by (simp add: quad_cell_def cmod_def)
qed

lemma clip_unit_abs: "\<bar>clip_unit v\<bar> \<le> 1"
  unfolding clip_unit_def by (cases "v > 1"; cases "v < - 1"; simp)

lemma mask_entry:
  assumes "rm \<in> set (quadrature_mask nX)" "m \<in> set rm"
  shows "m = 1 \<or> m = - 1"
  using assms by (auto simp: quadrature_mask_def Let_def)

lemma length_quadrature_mask: "length (quadrature_mask nX) = length nX - 1"
  by (simp add: quadrature_mask_def diff0_def)

lemma in_map2_rows:
  assumes "row \<in> set (map2 (map2 f) A M)" "z \<in> set row"
  shows "\<exists>ra\<in>set A. \<exists>rm\<in>set M. \<exists>a\<in>set ra. \<exists>m\<in>set rm. z = f a m"
proof -
  from assms(1) obtain ra rm where p: "(ra, rm) \<in> set (zip A M)" and r: "row = map2 f ra rm"
    by auto
  from assms(2) r obtain a m where q: "(a, m) \<in> set (zip ra rm)" and z: "z = f a m"
    by auto
  from p have "ra \<in> set A" "rm \<in> set M" by (auto dest: set_zip_leftD set_zip_rightD)
  moreover from q have "a \<in> set ra" "m \<in> set rm" by (auto dest: set_zip_leftD set_zip_rightD)
  ultimately show ?thesis using z by blast
qed

text \<open>
  A run of the transform on four samples of one column that rise and then fall, with
  the normaliser of the specification around a rescaling that leaves them as they are.
\<close>

lemma sqrt_16_25: "sqrt (16 / 25) = 4 / 5"
  by (rule real_sqrt_unique) (simp_all add: power2_eq_square)

lemma sqrt_9_25: "sqrt (9 / 25) = 3 / 5"
  by (rule real_sqrt_unique) (simp_all add: power2_eq_square)

lemma normalise_example:
  "amplitude_normalise (\<lambda>a. a) [[0], [3 / 5], [4 / 5], [0]] True = [[0], [3 / 5], [4 / 5], [0]]"
  by (simp add: amplitude_normalise_def clip_unit_def)

lemma quad_eval:
  "quadrature_transform (amplitude_normalise (\<lambda>a. a)) [[0], [3 / 5], [4 / 5], [0]] =
     Inr [[Complex 0 (- 1)], [Complex (3 / 5) (- (4 / 5))], [Complex (4 / 5) (3 / 5)], [Complex 0 1]]"
  by (simp add: quadrature_transform_def quadrature_mask_def
      diff0_def vsub_def amplitude_normalise_def clip_unit_def scimath_sqrt_real_def
      power2_eq_square sqrt_16_25 sqrt_9_25)

text \<open>
  C10, in exact arithmetic. With the normaliser of the specification and line 113 read
  over the real numbers, every element of the array that \<open>quadrature_transform\<close>
  returns has absolute value exactly 1, whatever the input and whatever the rescaling
  inside the normaliser does: the clipping puts the real part into [-1, 1], and the
  imaginary part is plus or minus the square root of one minus its square. The
  transform returns such an array whenever the normalised input has at least two time
  samples (with fewer, line 117 raises IndexError).
\<close>

theorem quadrature_unit_modulus:
  "(\<forall>Z. quadrature_transform (amplitude_normalise resc) X = Inr Z
        \<longrightarrow> (\<forall>row\<in>set Z. \<forall>z\<in>set row. cmod z = 1))
   \<and> (2 \<le> length (resc X) \<longrightarrow> (\<exists>Z. quadrature_transform (amplitude_normalise resc) X = Inr Z))"
proof (intro conjI allI impI ballI)
  fix Z row z
  assume ret: "quadrature_transform (amplitude_normalise resc) X = Inr Z"
    and row: "row \<in> set Z" and z: "z \<in> set row"
  define nX where "nX = amplitude_normalise resc X True"
  define M where "M = quadrature_mask nX"
  from ret have ne: "M \<noteq> []" and Z: "Z = map2 (map2 quad_cell) nX (M @ [last M])"
    by (auto simp: quadrature_fused nX_def M_def split: if_splits)
  from in_map2_rows[OF row[unfolded Z] z]
  obtain ra rm a m where ra: "ra \<in> set nX" and rm: "rm \<in> set (M @ [last M])"
    and a: "a \<in> set ra" and m: "m \<in> set rm" and zeq: "z = quad_cell a m"
    by blast
  from ra a have "\<bar>a\<bar> \<le> 1"
    by (auto simp: nX_def amplitude_normalise_def clip_unit_abs)
  moreover from rm ne have "rm \<in> set M" by auto
  then have "m = 1 \<or> m = - 1" using m mask_entry unfolding M_def by blast
  ultimately show "cmod z = 1" unfolding zeq by (rule quad_cell_unit)
next
  assume "2 \<le> length (resc X)"
  then have "quadrature_mask (amplitude_normalise resc X True) \<noteq> []"
    using length_quadrature_mask[of "amplitude_normalise resc X True"]
    by (auto simp: amplitude_normalise_def simp del: length_quadrature_mask)
  then show "\<exists>Z. quadrature_transform (amplitude_normalise resc) X = Inr Z"
    by (simp add: quadrature_fused)
qed

text \<open>The four-sample run is an instance: each of its four elements has modulus 1.\<close>

theorem quadrature_unit_modulus_witness:
  "quadrature_transform (amplitude_normalise (\<lambda>a. a)) [[0], [3 / 5], [4 / 5], [0]] =
     Inr [[Complex 0 (- 1)], [Complex (3 / 5) (- (4 / 5))], [Complex (4 / 5) (3 / 5)], [Complex 0 1]]
   \<and> cmod (Complex 0 (- 1)) = 1 \<and> cmod (Complex (3 / 5) (- (4 / 5))) = 1
   \<and> cmod (Complex (4 / 5) (3 / 5)) = 1 \<and> cmod (Complex 0 1) = 1
   \<and> 2 \<le> length ((\<lambda>a. a) ([[0], [3 / 5], [4 / 5], [0]] :: array))"
proof -
  note e = quad_eval
  from quadrature_unit_modulus[of "\<lambda>a. a" "[[0], [3 / 5], [4 / 5], [0]]"] e
  have "\<forall>row\<in>set [[Complex 0 (- 1)], [Complex (3 / 5) (- (4 / 5))], [Complex (4 / 5) (3 / 5)], [Complex 0 1]].
          \<forall>z\<in>set row. cmod z = 1"
    by blast
  then show ?thesis using e by simp
qed

text \<open>
  The rounding of binary64, evaluated: a number between two powers of two is rounded to
  a multiple of the unit of its binade.
\<close>

lemma rnd_even_eq:
  assumes "of_int n - 1 / 2 < x" "x < of_int n + 1 / 2"
  shows "rnd_even x = n"
proof -
  have "\<lfloor>x\<rfloor> = n \<or> \<lfloor>x\<rfloor> = n - 1" using assms by linarith
  then show ?thesis
  proof
    assume f: "\<lfloor>x\<rfloor> = n"
    then have "x - of_int n < 1 / 2" using assms by linarith
    then show ?thesis by (simp add: rnd_even_def f Let_def)
  next
    assume f: "\<lfloor>x\<rfloor> = n - 1"
    then have "x - of_int (n - 1) > 1 / 2" using assms by simp
    then show ?thesis using f by (simp add: rnd_even_def Let_def)
  qed
qed

lemma rnd_even_tie:
  assumes "x = of_int f + 1 / 2"
  shows "rnd_even x = (if even f then f else f + 1)"
proof -
  have "\<lfloor>x\<rfloor> = f" unfolding assms by linarith
  then show ?thesis by (simp add: rnd_even_def Let_def assms)
qed

lemma rnd_even_le:
  assumes "x < of_int n + 1 / 2"
  shows "rnd_even x \<le> n"
proof -
  have fl: "\<lfloor>x\<rfloor> \<le> n" using assms by linarith
  show ?thesis
  proof (cases "\<lfloor>x\<rfloor> = n")
    case True
    then have "x - of_int \<lfloor>x\<rfloor> < 1 / 2" using assms by simp
    then show ?thesis using True by (simp add: rnd_even_def Let_def)
  next
    case False
    then have "\<lfloor>x\<rfloor> + 1 \<le> n" using fl by simp
    then show ?thesis by (auto simp: rnd_even_def Let_def)
  qed
qed

lemma floor_log2:
  assumes "2 powi k \<le> x" "x < 2 powi (k + 1)"
  shows "\<lfloor>log 2 x\<rfloor> = k"
proof -
  have pos: "0 < x" using assms(1) by (smt (verit) zero_less_power_int)
  have "2 powr (of_int k) \<le> x" using assms(1) by (simp add: powr_real_of_int')
  moreover have "x < 2 powr (of_int k + 1)" using assms(2) powr_real_of_int'[of 2 "k + 1"] by simp
  ultimately show ?thesis using pos by (simp add: floor_log_eq_powr_iff)
qed

lemma round64_binade:
  assumes "2 powi k \<le> \<bar>r\<bar>" "\<bar>r\<bar> < 2 powi (k + 1)" "- 1022 \<le> k"
  shows "round64 r = of_int (rnd_even (r / 2 powi (k - 52))) * 2 powi (k - 52)"
proof -
  have nz: "r \<noteq> 0" using assms(1) by (smt (verit) zero_less_power_int)
  have e: "max \<lfloor>log 2 \<bar>r\<bar>\<rfloor> (- 1022) - 52 = k - 52"
    using floor_log2[OF assms(1,2)] assms(3) by simp
  show ?thesis
    using nz by (simp add: round64_def Let_def e)
qed

text \<open>
  The double of the literal 0.68, its rounded square 0.4624000000000001, one minus the
  square, which lies half way between two doubles and goes to the even one,
  0.5375999999999999, and the rounded root 0.7332121111929343.
\<close>

lemma literal_068: "round64 (17 / 25) = 6124895493223875 / 9007199254740992"
proof -
  have "round64 (17 / 25) = of_int (rnd_even ((17 / 25) / 2 powi (- 1 - 52))) * 2 powi (- 1 - 52)"
    by (rule round64_binade) (simp_all add: power_int_minus)
  moreover have "rnd_even ((17 / 25) / 2 powi (- 1 - 52)) = 6124895493223875"
    by (rule rnd_even_eq) (simp_all add: power_int_minus)
  ultimately show ?thesis by (simp add: power_int_minus)
qed

lemma sq_068:
  "round64 (6124895493223875 / 9007199254740992 * (6124895493223875 / 9007199254740992))
     = 8329857870784471 / 18014398509481984"
proof -
  let ?r = "6124895493223875 / 9007199254740992 * (6124895493223875 / 9007199254740992) :: real"
  have "round64 ?r = of_int (rnd_even (?r / 2 powi (- 2 - 52))) * 2 powi (- 2 - 52)"
    by (rule round64_binade) (simp_all add: power_int_minus)
  moreover have "rnd_even (?r / 2 powi (- 2 - 52)) = 8329857870784471"
    by (rule rnd_even_eq) (simp_all add: power_int_minus)
  ultimately show ?thesis by (simp add: power_int_minus)
qed

lemma om_068:
  "round64 (1 - 8329857870784471 / 18014398509481984) = 1210567579837189 / 2251799813685248"
proof -
  let ?r = "1 - 8329857870784471 / 18014398509481984 :: real"
  have "round64 ?r = of_int (rnd_even (?r / 2 powi (- 1 - 52))) * 2 powi (- 1 - 52)"
    by (rule round64_binade) (simp_all add: power_int_minus)
  moreover have "rnd_even (?r / 2 powi (- 1 - 52)) = (if even (4842270319348756::int) then 4842270319348756 else 4842270319348756 + 1)"
    by (rule rnd_even_tie) (simp add: power_int_minus)
  ultimately show ?thesis by (simp add: power_int_minus)
qed


lemma sqrt_between:
  assumes "0 \<le> lo" "lo ^ 2 < v" "0 \<le> hi" "v < hi ^ 2"
  shows "lo < sqrt v \<and> sqrt v < hi"
  using assms by (simp add: real_less_rsqrt real_less_lsqrt)

lemma root_068:
  "round64 (sqrt (1210567579837189 / 2251799813685248)) = 6604187581504067 / 9007199254740992"
proof -
  let ?v = "1210567579837189 / 2251799813685248 :: real"
  have b: "(6604187581504067 - 1 / 2) / 9007199254740992 < sqrt ?v
         \<and> sqrt ?v < (6604187581504067 + 1 / 2) / 9007199254740992"
    by (rule sqrt_between) (simp_all add: power2_eq_square)
  have c1: "(1 / 2 :: real) \<le> (6604187581504067 - 1 / 2) / 9007199254740992" by simp
  have c2: "(6604187581504067 + 1 / 2) / 9007199254740992 \<le> (1 :: real)" by simp
  have lo: "1 / 2 \<le> sqrt ?v"
    using le_less_trans[OF c1 b[THEN conjunct1]] by (rule less_imp_le)
  have hi: "sqrt ?v < 1"
    using b[THEN conjunct2] c2 by (rule less_le_trans)
  have "round64 (sqrt ?v) = of_int (rnd_even (sqrt ?v / 2 powi (- 1 - 52))) * 2 powi (- 1 - 52)"
    using lo hi by (intro round64_binade) (simp_all add: power_int_minus)
  moreover have "rnd_even (sqrt ?v / 2 powi (- 1 - 52)) = 6604187581504067"
    using b by (intro rnd_even_eq) (simp_all add: power_int_minus field_simps)
  ultimately show ?thesis by (simp add: power_int_minus)
qed

lemma round64_one: "round64 1 = 1"
proof -
  have "round64 1 = of_int (rnd_even (1 / 2 powi (0 - 52))) * 2 powi (0 - 52)"
    by (rule round64_binade) simp_all
  moreover have "rnd_even (1 / 2 powi (0 - 52)) = 4503599627370496"
    by (rule rnd_even_eq) (simp_all add: power_int_minus)
  ultimately show ?thesis by (simp add: power_int_minus)
qed

lemma round64_zero: "round64 0 = 0"
  by (simp add: round64_def)

lemma imag_068:
  "quadrature_imag_f64 (6124895493223875 / 9007199254740992) = 6604187581504067 / 9007199254740992"
  unfolding quadrature_imag_f64_def sq_068 om_068 scimath_sqrt_f64_def root_068 by simp

lemma imag_zero: "quadrature_imag_f64 0 = 1"
  by (simp add: quadrature_imag_f64_def scimath_sqrt_f64_def round64_zero round64_one)

lemma quad_f64_eval:
  "quadrature_transform_f64 (amplitude_normalise (\<lambda>a. a))
       [[0], [6124895493223875 / 9007199254740992], [0]] =
     Inr [[Complex 0 (- 1)],
          [Complex (6124895493223875 / 9007199254740992) (6604187581504067 / 9007199254740992)],
          [Complex 0 1]]"
  by (simp add: quadrature_transform_f64_def quadrature_mask_def diff0_def vsub_def
      amplitude_normalise_def clip_unit_def imag_068 imag_zero)

lemma modulus_068_below:
  "cmod (Complex (6124895493223875 / 9007199254740992) (6604187581504067 / 9007199254740992))
     < 1 - 1 / 2 ^ 54"
  "1 / 2 \<le> cmod (Complex (6124895493223875 / 9007199254740992) (6604187581504067 / 9007199254740992))"
  unfolding cmod_def
  by (rule real_less_lsqrt real_le_rsqrt; simp add: power2_eq_square)+

lemma round64_below_one:
  assumes "1 / 2 \<le> r" "r < 1 - 1 / 2 ^ 54"
  shows "round64 r < 1"
proof -
  have "round64 r = of_int (rnd_even (r / 2 powi (- 1 - 52))) * 2 powi (- 1 - 52)"
    using assms by (intro round64_binade) (simp_all add: power_int_minus)
  moreover have "rnd_even (r / 2 powi (- 1 - 52)) \<le> 9007199254740991"
    using assms by (intro rnd_even_le) (simp_all add: power_int_minus field_simps)
  then have "(of_int (rnd_even (r / 2 powi (- 1 - 52))) :: real) \<le> 9007199254740991"
    by (metis of_int_le_iff of_int_numeral)
  ultimately show ?thesis by (simp add: power_int_minus field_simps)
qed

text \<open>
  C10 as the specification words it (absolute value exactly 1, for every real input)
  fails in the arithmetic of the code. On the three samples 0, 0.68, 0 of one column the
  second element returned is 0.68 + 0.7332121111929343 i. Its absolute value is below 1
  by more than half the distance to the next double below 1, so that the absolute
  value rounded to binary64 is not 1.0 either.
\<close>

theorem quadrature_float_counterexample:
  "quadrature_transform_f64 (amplitude_normalise (\<lambda>a. a))
       [[0], [6124895493223875 / 9007199254740992], [0]] =
     Inr [[Complex 0 (- 1)],
          [Complex (6124895493223875 / 9007199254740992) (6604187581504067 / 9007199254740992)],
          [Complex 0 1]]
   \<and> cmod (Complex (6124895493223875 / 9007199254740992) (6604187581504067 / 9007199254740992)) < 1
   \<and> round64 (cmod (Complex (6124895493223875 / 9007199254740992)
                              (6604187581504067 / 9007199254740992))) < 1"
proof -
  note m = modulus_068_below
  have "cmod (Complex (6124895493223875 / 9007199254740992) (6604187581504067 / 9007199254740992)) < 1"
    using m(1) by (simp add: field_simps)
  moreover have "round64 (cmod (Complex (6124895493223875 / 9007199254740992)
                              (6604187581504067 / 9007199254740992))) < 1"
    using m(2) m(1) by (rule round64_below_one)
  ultimately show ?thesis using quad_f64_eval by simp
qed

lemma rect_nth: "rect T C a \<Longrightarrow> t < T \<Longrightarrow> length (a ! t) = C"
  by (simp add: rect_def list_all_length)

lemma diff0_nth:
  assumes "rect T C a" "Suc s < T" "j < C"
  shows "length (diff0 a ! s) = C" and "diff0 a ! s ! j = a ! Suc s ! j - a ! s ! j"
proof -
  from assms have l: "length a = T" by (simp add: rect_def)
  have s1: "s < length (tl a)" and s2: "s < length (butlast a)" using assms(2) l by simp_all
  have row: "diff0 a ! s = vsub (a ! Suc s) (a ! s)"
    using s1 s2 by (simp add: diff0_def nth_tl nth_butlast)
  have la: "length (a ! Suc s) = C" "length (a ! s) = C"
    using rect_nth[OF assms(1)] assms(2) by simp_all
  show "length (diff0 a ! s) = C" using la by (simp add: row vsub_def)
  show "diff0 a ! s ! j = a ! Suc s ! j - a ! s ! j"
    using la assms(3) by (simp add: row vsub_def)
qed

lemma quadrature_mask_nth:
  assumes "rect T C a" "Suc s < T" "j < C"
  shows "length (quadrature_mask a ! s) = C"
    and "quadrature_mask a ! s ! j = (if a ! Suc s ! j > a ! s ! j then - 1 else 1)"
proof -
  have sl: "s < length (diff0 a)"
    using assms(1,2) by (simp add: diff0_def rect_def)
  show "length (quadrature_mask a ! s) = C"
    using sl diff0_nth(1)[OF assms] by (simp add: quadrature_mask_def)
  show "quadrature_mask a ! s ! j = (if a ! Suc s ! j > a ! s ! j then - 1 else 1)"
    using sl diff0_nth[OF assms] assms(3) by (simp add: quadrature_mask_def)
qed

text \<open>
  C7, as the code has it. Let \<open>nX\<close> be the normalised array, rectangular with \<open>T \<ge> 2\<close>
  time samples. The element at time \<open>t\<close> and column \<open>j\<close> of the result has real part
  \<open>nX[t, j]\<close> and imaginary part \<open>sqrt(1 - nX[t, j]^2)\<close> (which is never negative) times
  a sign taken from the step between the samples \<open>s\<close> and \<open>s + 1\<close> of that column,
  where \<open>s = t\<close> before the final time point and \<open>s = T - 2\<close> at the final one, which so
  reuses the sign of the sample before it. The sign is minus when the step ascends
  (\<open>nX[s+1, j] > nX[s, j]\<close>) and plus when it descends or is flat. This holds for every
  normaliser.
\<close>

theorem quadrature_sign:
  assumes "rect T C (normalise X True)" "2 \<le> T" "t < T" "j < C"
  shows "\<exists>Z. quadrature_transform normalise X = Inr Z \<and> length Z = T \<and> length (Z ! t) = C \<and>
     (let nX = normalise X True;
          s = (if t = T - 1 then T - 2 else t);
          r = scimath_sqrt_real (1 - (nX ! t ! j) ^ 2)
      in 0 \<le> r \<and> Re (Z ! t ! j) = nX ! t ! j \<and>
         Im (Z ! t ! j) = (if nX ! (s + 1) ! j > nX ! s ! j then - r else r))"
proof -
  define nX where "nX = normalise X True"
  define M where "M = quadrature_mask nX"
  define s where "s = (if t = T - 1 then T - 2 else t)"
  define r where "r = scimath_sqrt_real (1 - (nX ! t ! j) ^ 2)"
  define Z where "Z = map2 (map2 quad_cell) nX (M @ [last M])"
  have rc: "rect T C nX" using assms(1) by (simp add: nX_def)
  then have lT: "length nX = T" by (simp add: rect_def)
  have lM: "length M = T - 1" by (simp add: M_def length_quadrature_mask lT)
  then have ne: "M \<noteq> []" using assms(2) by auto
  have ret: "quadrature_transform normalise X = Inr Z"
    using ne by (simp add: quadrature_fused nX_def[symmetric] M_def[symmetric] Z_def)
  have sT: "Suc s < T" using assms(2,3) by (auto simp: s_def)
  have row: "(M @ [last M]) ! t = M ! s"
  proof (cases "t = T - 1")
    case True
    then have "(M @ [last M]) ! t = last M" using lM by (simp add: nth_append)
    also have "\<dots> = M ! (length M - 1)" using ne by (rule last_conv_nth)
    also have "length M - 1 = T - 2" using lM by arith
    finally show ?thesis using True by (simp add: s_def)
  next
    case False
    then have "t < length M" using lM assms(3) by simp
    then show ?thesis using False by (simp add: nth_append s_def)
  qed
  have lrow: "length (M ! s) = C"
    and cellm: "M ! s ! j = (if nX ! Suc s ! j > nX ! s ! j then - 1 else 1)"
    using quadrature_mask_nth[OF rc sT assms(4)] by (simp_all add: M_def)
  have lx: "length (nX ! t) = C" using rect_nth[OF rc assms(3)] .
  have tl: "t < length (M @ [last M])" using lM assms(2,3) by simp
  have zt: "Z ! t = map2 quad_cell (nX ! t) (M ! s)"
    using tl lT assms(3) row by (simp add: Z_def)
  then have ztj: "Z ! t ! j = quad_cell (nX ! t ! j) (M ! s ! j)"
    using lx lrow assms(4) by simp
  have lZ: "length Z = T" using lT lM assms(2) by (simp add: Z_def)
  have lZt: "length (Z ! t) = C" using lx lrow by (simp add: zt)
  have "0 \<le> r" unfolding r_def by (rule scimath_sqrt_real_nonneg)
  moreover have "Re (Z ! t ! j) = nX ! t ! j" by (simp add: ztj quad_cell_def)
  moreover have "Im (Z ! t ! j) = (if nX ! (s + 1) ! j > nX ! s ! j then - r else r)"
    by (simp add: ztj quad_cell_def cellm r_def)
  ultimately have "quadrature_transform normalise X = Inr Z \<and> length Z = T \<and> length (Z ! t) = C \<and>
      (0 \<le> r \<and> Re (Z ! t ! j) = nX ! t ! j \<and>
         Im (Z ! t ! j) = (if nX ! (s + 1) ! j > nX ! s ! j then - r else r))"
    using ret lZ lZt by simp
  then show ?thesis
    unfolding Let_def nX_def[symmetric] s_def[symmetric] r_def[symmetric] by (rule exI)
qed

text \<open>
  The second sample of the four-sample run: its successor is larger, and its imaginary
  part is \<open>- 4/5\<close>.
\<close>

theorem quadrature_sign_witness:
  "rect 4 1 (amplitude_normalise (\<lambda>a. a) [[0], [3 / 5], [4 / 5], [0]] True) \<and> (2::nat) \<le> 4
   \<and> (1::nat) < 4 \<and> (0::nat) < 1
   \<and> (\<exists>Z. quadrature_transform (amplitude_normalise (\<lambda>a. a)) [[0], [3 / 5], [4 / 5], [0]] = Inr Z
          \<and> Re (Z ! 1 ! 0) = 3 / 5 \<and> Im (Z ! 1 ! 0) = - (4 / 5))"
proof -
  have r: "rect 4 1 (amplitude_normalise (\<lambda>a. a) [[0], [3 / 5], [4 / 5], [0]] True)"
    by (simp add: normalise_example rect_def)
  from quadrature_sign[where normalise = "amplitude_normalise (\<lambda>a. a)"
      and X = "[[0], [3 / 5], [4 / 5], [0]]" and T = 4 and C = 1 and t = 1 and j = 0, OF r]
  show ?thesis using r
    by (auto simp: normalise_example Let_def power2_eq_square sqrt_16_25 scimath_sqrt_real_def)
qed

text \<open>
  C7 as the specification words it (an ascending slope gives the sample a positive sign)
  fails on that run: from the second sample (3/5) to the third (4/5) the signal ascends,
  and the imaginary part of the second element is negative.
\<close>

theorem quadrature_ascending_counterexample:
  "(3 / 5 :: real) < 4 / 5 \<and>
   quadrature_transform (amplitude_normalise (\<lambda>a. a)) [[0], [3 / 5], [4 / 5], [0]] =
     Inr [[Complex 0 (- 1)], [Complex (3 / 5) (- (4 / 5))], [Complex (4 / 5) (3 / 5)], [Complex 0 1]]
   \<and> Im (Complex (3 / 5) (- (4 / 5))) < 0"
  using quad_eval by simp

section \<open>Results on the round trip of phase and frequency\<close>

lemma cumsum_from_nth:
  "list_all (\<lambda>r. length r = C) rs \<Longrightarrow> length acc = C \<Longrightarrow> t < length rs \<Longrightarrow> j < C \<Longrightarrow>
     length (cumsum_from acc rs) = length rs \<and> length (cumsum_from acc rs ! t) = C \<and>
     cumsum_from acc rs ! t ! j = acc ! j + (\<Sum>i\<le>t. rs ! i ! j)"
proof (induction rs arbitrary: acc t)
  case Nil
  then show ?case by simp
next
  case (Cons r rs)
  have lr: "length r = C" and all: "list_all (\<lambda>r. length r = C) rs"
    using Cons.prems(1) by simp_all
  have lacc: "length (vadd acc r) = C" using lr Cons.prems(2) by (simp add: vadd_def)
  have accj: "vadd acc r ! j = acc ! j + r ! j"
    using lr Cons.prems(2,4) by (simp add: vadd_def)
  show ?case
  proof (cases t)
    case 0
    have "length (cumsum_from (vadd acc r) rs) = length rs"
    proof (cases rs)
      case Nil then show ?thesis by simp
    next
      case (Cons r' rs')
      then have "0 < length rs" by simp
      from Cons.IH[OF all lacc this Cons.prems(4)] show ?thesis by simp
    qed
    then show ?thesis using 0 lacc accj by simp
  next
    case (Suc t')
    then have t': "t' < length rs" using Cons.prems(3) by simp
    have "(\<Sum>i\<le>Suc t'. (r # rs) ! i ! j) = r ! j + (\<Sum>i\<le>t'. rs ! i ! j)"
      by (simp add: sum.atMost_Suc_shift del: sum.atMost_Suc)
    then show ?thesis
      using Cons.IH[OF all lacc t' Cons.prems(4)] Suc accj by simp
  qed
qed

lemma cumsum0_nth:
  assumes "rect T C a" "t < T" "j < C"
  shows "length (cumsum0 a) = T \<and> length (cumsum0 a ! t) = C \<and>
         cumsum0 a ! t ! j = (\<Sum>i\<le>t. a ! i ! j)"
proof (cases a)
  case Nil
  then show ?thesis using assms by (simp add: rect_def)
next
  case (Cons r rs)
  have lr: "length r = C" and all: "list_all (\<lambda>r. length r = C) rs" and lT: "Suc (length rs) = T"
    using assms(1) Cons by (simp_all add: rect_def)
  show ?thesis
  proof (cases t)
    case 0
    have "length (cumsum_from r rs) = length rs"
    proof (cases rs)
      case Nil then show ?thesis by simp
    next
      case (Cons r' rs')
      then have "0 < length rs" by simp
      from cumsum_from_nth[OF all lr this assms(3)] show ?thesis by simp
    qed
    then show ?thesis using 0 Cons lr lT by (simp add: cumsum0_def)
  next
    case (Suc t')
    then have t': "t' < length rs" using assms(2) lT by simp
    have "(\<Sum>i\<le>Suc t'. (r # rs) ! i ! j) = r ! j + (\<Sum>i\<le>t'. rs ! i ! j)"
      by (simp add: sum.atMost_Suc_shift del: sum.atMost_Suc)
    then show ?thesis
      using cumsum_from_nth[OF all lr t' assms(3)] Suc Cons lT by (simp add: cumsum0_def)
  qed
qed

lemma gradient_sum:
  fixes p :: "nat \<Rightarrow> real"
  assumes "g 0 = p 1 - p 0"
    and "\<And>i. 0 < i \<Longrightarrow> i < T - 1 \<Longrightarrow> g i = (p (i + 1) - p (i - 1)) / 2"
    and "Suc t < T"
  shows "(\<Sum>i\<le>t. g i) = (p t + p (Suc t)) / 2 + (p 1 - p 0) / 2 - p 0"
  using assms(3)
proof (induction t)
  case 0
  then show ?case using assms(1) by (simp add: field_simps)
next
  case (Suc t)
  then have "g (Suc t) = (p (Suc t + 1) - p (Suc t - 1)) / 2"
    using assms(2)[of "Suc t"] by simp
  then show ?case using Suc by (simp add: field_simps)
qed

lemma gradient0_nth:
  assumes "rect T C a" "2 \<le> T"
  shows "\<exists>g. gradient0 a = Inr g \<and> rect T C g \<and>
     (\<forall>j<C. g ! 0 ! j = a ! 1 ! j - a ! 0 ! j \<and>
             g ! (T - 1) ! j = a ! (T - 1) ! j - a ! (T - 2) ! j \<and>
             (\<forall>i. 0 < i \<and> i < T - 1 \<longrightarrow> g ! i ! j = (a ! (i + 1) ! j - a ! (i - 1) ! j) / 2))"
proof -
  define row where "row = (\<lambda>t. if t = 0 then vsub (a ! 1) (a ! 0)
                         else if t = T - 1 then vsub (a ! (T - 1)) (a ! (T - 2))
                         else map (\<lambda>d. d / 2) (vsub (a ! (t + 1)) (a ! (t - 1))))"
  define g where "g = map row [0..<T]"
  have lT: "length a = T" using assms(1) by (simp add: rect_def)
  have ret: "gradient0 a = Inr g"
    using assms(2) lT by (simp add: gradient0_def g_def row_def Let_def)
  have len: "\<And>i. i < T \<Longrightarrow> length (a ! i) = C" using rect_nth[OF assms(1)] .
  have vs: "\<And>i k. i < T \<Longrightarrow> k < T \<Longrightarrow> length (vsub (a ! i) (a ! k)) = C"
    using len by (simp add: vsub_def)
  have vsj: "\<And>i k j. i < T \<Longrightarrow> k < T \<Longrightarrow> j < C \<Longrightarrow> vsub (a ! i) (a ! k) ! j = a ! i ! j - a ! k ! j"
    using len by (simp add: vsub_def)
  have lrow: "\<And>t. t < T \<Longrightarrow> length (row t) = C"
    using assms(2) by (auto simp: row_def vs)
  have r: "rect T C g"
    using lrow by (simp add: rect_def g_def list_all_length)
  have g0: "\<And>j. j < C \<Longrightarrow> g ! 0 ! j = a ! 1 ! j - a ! 0 ! j"
    using assms(2) by (simp add: g_def row_def vsj)
  have gl: "\<And>j. j < C \<Longrightarrow> g ! (T - 1) ! j = a ! (T - 1) ! j - a ! (T - 2) ! j"
    using assms(2) by (simp add: g_def row_def vsj)
  have gi: "\<And>i j. j < C \<Longrightarrow> 0 < i \<Longrightarrow> i < T - 1 \<Longrightarrow> g ! i ! j = (a ! (i + 1) ! j - a ! (i - 1) ! j) / 2"
  proof -
    fix i j assume j: "j < C" and i: "0 < i" "i < T - 1"
    then have "g ! i = map (\<lambda>d. d / 2) (vsub (a ! (i + 1)) (a ! (i - 1)))"
      by (simp add: g_def row_def)
    moreover have "j < length (vsub (a ! (i + 1)) (a ! (i - 1)))" using vs[of "i + 1" "i - 1"] i j by simp
    ultimately show "g ! i ! j = (a ! (i + 1) ! j - a ! (i - 1) ! j) / 2"
      using vsj[of "i + 1" "i - 1" j] i j by simp
  qed
  show ?thesis using ret r g0 gl gi by blast
qed


lemma scale_back:
  assumes "sample_rate \<noteq> 0"
  shows "map (map (\<lambda>f. (f / sample_rate) * (2 * pi))) (map (map (\<lambda>d. d / (2 * pi) * sample_rate)) g) = g"
proof -
  have "(\<lambda>f. (f / sample_rate) * (2 * pi)) \<circ> (\<lambda>d. d / (2 * pi) * sample_rate) = id"
    using assms by (auto simp: fun_eq_iff)
  then show ?thesis by (simp add: map_idI)
qed

text \<open>
  C4, as the code has it. For a rectangular phase array of \<open>T \<ge> 2\<close> time samples and a
  sample rate other than 0, the round trip returns an array of the same shape whose
  value at time \<open>t\<close> before the last is the mean of \<open>phase[t]\<close> and \<open>phase[t+1]\<close> plus
  half the first step \<open>phase[1] - phase[0]\<close>; at the last time point it is
  \<open>(3 phase[T-1] - phase[T-2]) / 2\<close> plus half the first step. It is not \<open>phase[t]\<close>.
\<close>

theorem round_trip_value:
  assumes "rect T C phase" "2 \<le> T" "sample_rate \<noteq> 0" "t < T" "j < C"
  shows "\<exists>P. round_trip phase sample_rate = Inr P \<and> length P = T \<and> length (P ! t) = C \<and>
     P ! t ! j =
       (if Suc t < T
        then (phase ! t ! j + phase ! (t + 1) ! j) / 2 + (phase ! 1 ! j - phase ! 0 ! j) / 2
        else (3 * phase ! (T - 1) ! j - phase ! (T - 2) ! j) / 2
               + (phase ! 1 ! j - phase ! 0 ! j) / 2)"
proof -
  from gradient0_nth[OF assms(1,2)] obtain g where
    gr: "gradient0 phase = Inr g" and rg: "rect T C g" and
    g0: "g ! 0 ! j = phase ! 1 ! j - phase ! 0 ! j" and
    gl: "g ! (T - 1) ! j = phase ! (T - 1) ! j - phase ! (T - 2) ! j" and
    gi: "\<And>i. 0 < i \<Longrightarrow> i < T - 1 \<Longrightarrow> g ! i ! j = (phase ! (i + 1) ! j - phase ! (i - 1) ! j) / 2"
    using assms(5) by blast
  define P where "P = map (\<lambda>r. vadd (phase ! 0) r) (cumsum0 g)"
  have ret: "round_trip phase sample_rate = Inr P"
    unfolding round_trip_def freq_from_phase_def gr sum.case phase_from_freq_def Let_def
      scale_back[OF assms(3)] P_def ..
  from cumsum0_nth[OF rg assms(4,5)] have
    lc: "length (cumsum0 g) = T" and lct: "length (cumsum0 g ! t) = C" and
    cs: "cumsum0 g ! t ! j = (\<Sum>i\<le>t. g ! i ! j)"
    by simp_all
  have l0: "length (phase ! 0) = C" using rect_nth[OF assms(1)] assms(2) by simp
  have lP: "length P = T" using lc by (simp add: P_def)
  have Pt: "P ! t = vadd (phase ! 0) (cumsum0 g ! t)" using lc assms(4) by (simp add: P_def)
  have lPt: "length (P ! t) = C" using l0 lct by (simp add: Pt vadd_def)
  have Ptj: "P ! t ! j = phase ! 0 ! j + (\<Sum>i\<le>t. g ! i ! j)"
    using l0 lct assms(5) cs by (simp add: Pt vadd_def)
  have val: "P ! t ! j =
       (if Suc t < T
        then (phase ! t ! j + phase ! (t + 1) ! j) / 2 + (phase ! 1 ! j - phase ! 0 ! j) / 2
        else (3 * phase ! (T - 1) ! j - phase ! (T - 2) ! j) / 2
               + (phase ! 1 ! j - phase ! 0 ! j) / 2)"
  proof (cases "Suc t < T")
    case True
    from gradient_sum[of "\<lambda>i. g ! i ! j" "\<lambda>i. phase ! i ! j" T t, OF _ _ True] g0 gi
    have "(\<Sum>i\<le>t. g ! i ! j) = (phase ! t ! j + phase ! Suc t ! j) / 2
             + (phase ! 1 ! j - phase ! 0 ! j) / 2 - phase ! 0 ! j"
      by simp
    then show ?thesis using True Ptj by simp
  next
    case False
    then obtain u where u: "t = Suc u" "Suc u = T - 1" "u = T - 2" "Suc u < T"
      using assms(2,4) by (cases t) auto
    from gradient_sum[of "\<lambda>i. g ! i ! j" "\<lambda>i. phase ! i ! j" T u, OF _ _ u(4)] g0 gi
    have "(\<Sum>i\<le>u. g ! i ! j) = (phase ! u ! j + phase ! Suc u ! j) / 2
             + (phase ! 1 ! j - phase ! 0 ! j) / 2 - phase ! 0 ! j"
      by simp
    moreover have "(\<Sum>i\<le>t. g ! i ! j) = (\<Sum>i\<le>u. g ! i ! j) + g ! Suc u ! j"
      using u(1) by simp
    ultimately show ?thesis using False Ptj gl u by (simp add: field_simps)
  qed
  show ?thesis using ret lP lPt val by blast
qed

text \<open>
  On the ramp 0, 1, 2 of one column sampled at rate 1 the formula gives 2 at the second
  sample.
\<close>

theorem round_trip_value_witness:
  "rect 3 1 [[0], [1], [2 :: real]] \<and> (2::nat) \<le> 3 \<and> (1::real) \<noteq> 0 \<and> (1::nat) < 3 \<and> (0::nat) < 1
   \<and> (\<exists>P. round_trip [[0], [1], [2]] 1 = Inr P \<and> P ! 1 ! 0 = 2)"
proof -
  have r: "rect 3 1 [[0], [1], [2 :: real]]" by (simp add: rect_def)
  from round_trip_value[OF r, of 1 1 0]
  show ?thesis using r by auto
qed

text \<open>
  C4 as the specification words it (the round trip reproduces the phase at every sample
  but possibly the first) fails on that ramp: the round trip returns 1, 2, 3, which
  differs from the phase by a whole step at the second and at the third sample.
\<close>

theorem round_trip_counterexample:
  "round_trip [[0], [1], [2]] 1 = Inr [[1], [2], [3]]
   \<and> [[1], [2], [3]] ! 1 \<noteq> ([[0], [1], [2]] :: array) ! 1
   \<and> [[1], [2], [3]] ! 2 \<noteq> ([[0], [1], [2]] :: array) ! 2"
  by (simp add: round_trip_def freq_from_phase_def gradient0_def vsub_def upt_rec
      phase_from_freq_def cumsum0_def vadd_def)

section \<open>Results on the histogram bins\<close>

lemma fsub_nonfinite:
  assumes "start = NegInf \<or> start = NaN"
  shows "fsub stop start = PosInf \<or> fsub stop start = NaN"
  using assms by (cases stop) (auto simp: fsub_def)

lemma fmul_zero_nonfinite:
  assumes "d = PosInf \<or> d = NaN"
  shows "fmul (Fin 0) d = NaN"
  using assms by (auto simp: inf_of_sign_def)

lemma linspace_nonfinite_start:
  assumes "start = NegInf \<or> start = NaN" "0 < num"
  shows "\<exists>ys. linspace start stop num = Inr ys \<and> length ys = nat num \<and> ys ! 0 = NaN"
proof -
  define n where "n = nat num"
  define delta where "delta = fsub stop start"
  have d: "delta = PosInf \<or> delta = NaN"
    unfolding delta_def using assms(1) by (rule fsub_nonfinite)
  have n0: "0 < n" using assms(2) by (simp add: n_def)
  define y' where "y' = map (\<lambda>i. fadd (fmul (Fin (real i)) delta) start) [0..<n]"
  have step: "\<And>dv. fdiv_pos delta dv = delta" using d by auto
  have nz: "delta \<noteq> Fin 0" using d by auto
  have ly: "length y' = n" by (simp add: y'_def)
  have "y' ! 0 = fadd (fmul (Fin 0) delta) start" using n0 by (simp add: y'_def)
  then have y'0: "y' ! 0 = NaN" using fmul_zero_nonfinite[OF d] by simp
  have lin: "linspace start stop num = Inr (if num > 1 then butlast y' @ [stop] else y')"
    using assms(2) nz
    by (simp add: linspace_def Let_def delta_def[symmetric] n_def[symmetric] step y'_def o_def)
  show ?thesis
  proof (cases "num > 1")
    case True
    then have "1 < n" by (simp add: n_def)
    then have "(butlast y' @ [stop]) ! 0 = y' ! 0" using ly by (simp add: nth_append nth_butlast)
    then show ?thesis using True lin ly y'0 n0 by (simp add: n_def)
  next
    case False
    then show ?thesis using lin ly y'0 by (simp add: n_def)
  qed
qed

lemma length_centres_of: "length (centres_of edges) = length edges - 1"
  by (simp add: centres_of_def)

text \<open>
  C9, as the code has it. \<open>define_hist_bins\<close> makes no check of \<open>data_min\<close>. For every
  \<open>data_min \<le> 0\<close>, every \<open>data_max\<close> and every bin count \<open>nbins \<ge> 0\<close>, the call with
  \<^verbatim>\<open>scale='log'\<close> raises nothing: it returns \<open>nbins + 1\<close> edges and \<open>nbins\<close> centres,
  and the first edge is NaN, since the logarithm of \<open>data_min\<close> is minus infinity or NaN.
\<close>

theorem log_bins_nonpositive_min:
  assumes "x \<le> 0" "0 \<le> nbins"
  shows "\<exists>edges centres. define_hist_bins (Fin x) data_max nbins ''log'' = Inr (edges, centres)
           \<and> length edges = nat nbins + 1 \<and> length centres = nat nbins \<and> edges ! 0 = NaN"
proof -
  have "np_log (Fin x) = NegInf \<or> np_log (Fin x) = NaN" using assms(1) by simp
  from linspace_nonfinite_start[OF this, of "nbins + 1" "np_log data_max"] assms(2)
  obtain ys where lin: "linspace (np_log (Fin x)) (np_log data_max) (nbins + 1) = Inr ys"
    and l: "length ys = nat (nbins + 1)" and y0: "ys ! 0 = NaN"
    by auto
  have l': "length ys = nat nbins + 1" using l assms(2) by (simp add: nat_add_distrib)
  have "define_hist_bins (Fin x) data_max nbins ''log'' = Inr (map np_exp ys, centres_of (map np_exp ys))"
    using lin by (simp add: define_hist_bins_def Let_def del: np_log.simps)
  moreover have "map np_exp ys ! 0 = NaN" using y0 l' by simp
  ultimately show ?thesis using l' by (simp add: length_centres_of)
qed

text \<open>With \<open>data_min = 0\<close>, \<open>data_max = 10\<close> and five bins: six edges, the first NaN.\<close>

theorem log_bins_nonpositive_min_witness:
  "(0::real) \<le> 0 \<and> (0::int) \<le> 5
   \<and> define_hist_bins (Fin 0) (Fin 10) 5 ''log''
       = Inr ([NaN, NaN, NaN, NaN, NaN, Fin 10], [NaN, NaN, NaN, NaN, NaN])
   \<and> length [NaN, NaN, NaN, NaN, NaN, Fin 10] = nat 5 + 1
   \<and> [NaN, NaN, NaN, NaN, NaN, Fin 10] ! 0 = NaN"
proof -
  have e: "define_hist_bins (Fin 0) (Fin 10) 5 ''log''
       = Inr ([NaN, NaN, NaN, NaN, NaN, Fin 10], [NaN, NaN, NaN, NaN, NaN])"
    by (simp add: define_hist_bins_def linspace_def fsub_def inf_of_sign_def centres_of_def upt_rec)
  from log_bins_nonpositive_min[of 0 5 "Fin 10"] e
  have "length [NaN, NaN, NaN, NaN, NaN, Fin 10] = nat 5 + 1 \<and> [NaN, NaN, NaN, NaN, NaN, Fin 10] ! 0 = NaN"
    by auto
  then show ?thesis using e by simp
qed

text \<open>
  C9 as the specification words it (the call fails with a configuration error) fails at
  \<open>data_min = 0\<close>, \<open>data_max = 10\<close>, five bins: the call returns six edges and five
  centres, all NaN but the last edge.
\<close>

theorem log_bins_counterexample:
  "define_hist_bins (Fin 0) (Fin 10) 5 ''log''
     = Inr ([NaN, NaN, NaN, NaN, NaN, Fin 10], [NaN, NaN, NaN, NaN, NaN])"
  by (simp add: define_hist_bins_def linspace_def fsub_def inf_of_sign_def centres_of_def upt_rec)

section \<open>Results on the spectral aggregators\<close>

text \<open>
  C3. With the edges 0, 1, 2 there are two bins, [0, 1) and [1, 2). Two samples of one
  column have the frequencies 1/2 and 3/2, both in range, and the amplitudes 1 and 2: the
  energy in range is 1 + 4 = 5. The code returns the column 0, 1, whose sum is 1. The
  digitize indices of the two samples are 1 and 2, one more than the numbers of their
  bins, while the loop of line 428 visits the indices 0 and 1: the sample of the first
  bin is counted in the row of the second, and the sample of the last bin in no row.
\<close>

theorem hilberthuang_1d_drops_last_bin:
  "hilberthuang_1d [[1 / 2], [3 / 2]] [[1], [2]] [0, 1, 2] ''energy'' = Inr [[0], [1]]"
  by (simp add: hilberthuang_1d_def monotonic_def digitize_def searchsorted_right_def
      shape1_def upt_rec)

text \<open>
  C6. With the edges 0, 1, 2 and three samples of one column at the frequencies -1, 1/2
  and 3/2 with the amplitudes 3, 1 and 2: the first sample is below the range, and line
  388 keeps it (its digitize index is 0), so its energy 9 stands in the row of the first
  bin; the sample of the first bin (energy 1) stands in the row of the second bin; the
  sample of the second bin (energy 4, digitize index 2) is filtered out.
\<close>

theorem hilberthuang_keeps_below_range:
  "hilberthuang [[- 1], [1 / 2], [3 / 2]] [[3], [1], [2]] [0, 1, 2] ''energy'' False
     = Inr (Dense [[9, 0, 0], [0, 1, 0]])"
  by (simp add: hilberthuang_def monotonic_def digitize_def searchsorted_right_def shape1_def
      upt_rec coo_matrix_def toarray_def cell_def)


















lemma set_time_indices: "t \<in> set (concat (map (\<lambda>t. replicate n t) [0..<T])) \<Longrightarrow> t < T"
  by auto





text \<open>
  The same two calls with the AM frequencies given once for both carriers (shape
  (2, 1, 2), which line 336 broadcasts over the carriers): the results are the same.
\<close>

lemma holo_example:
  "holospectrum \<lparr>shape = [2, 2], flat = [1 / 2, 3 / 2, 3 / 2, 1 / 2]\<rparr>
       \<lparr>shape = [2, 1, 2], flat = [1 / 2, 3 / 2, 3 / 2, 1 / 2]\<rparr>
       \<lparr>shape = [2, 2, 2], flat = [1, 2, 3, 4, 5, 6, 7, 8]\<rparr> [0, 1, 2] [0, 1, 2] ''energy'' True
     = Inr (Holo3 [[[1, 9], [4, 16]], [[64, 36], [49, 25]]])
   \<and> holospectrum \<lparr>shape = [2, 2], flat = [1 / 2, 3 / 2, 3 / 2, 1 / 2]\<rparr>
       \<lparr>shape = [2, 1, 2], flat = [1 / 2, 3 / 2, 3 / 2, 1 / 2]\<rparr>
       \<lparr>shape = [2, 2, 2], flat = [1, 2, 3, 4, 5, 6, 7, 8]\<rparr> [0, 1, 2] [0, 1, 2] ''energy'' False
     = Inr (Holo2 [[65, 45], [53, 41]])"
  by code_simp

end
